theory Spec2Isabelle
  imports Complex_Main
begin

section \<open>JavaScript numbers\<close>

text \<open>
  The source computes with JavaScript numbers (IEEE doubles). The model keeps the special
  values of that arithmetic and the rules for them: a division by zero gives an infinity
  or NaN, every comparison with NaN is false. Finite results are computed exactly, over the
  rationals, so rounding and overflow are not part of the model: a finite value of the
  model is the value of the source wherever the operations of the source do not round, as
  at the numbers of the examples below, which are binary fractions. Zero carries no sign: a
  zero divisor counts as positive zero, which is what the divisors of the source are
  (sizes of elements and images, and products and quotients of those, are never negative).
\<close>

datatype number = Fin rat | PInf | NInf | NaN

fun num_sub :: "number \<Rightarrow> number \<Rightarrow> number" where
  "num_sub NaN _ = NaN"
| "num_sub _ NaN = NaN"
| "num_sub (Fin a) (Fin b) = Fin (a - b)"
| "num_sub (Fin a) PInf = NInf"
| "num_sub (Fin a) NInf = PInf"
| "num_sub PInf PInf = NaN"
| "num_sub PInf _ = PInf"
| "num_sub NInf NInf = NaN"
| "num_sub NInf _ = NInf"

fun num_mul :: "number \<Rightarrow> number \<Rightarrow> number" where
  "num_mul NaN _ = NaN"
| "num_mul _ NaN = NaN"
| "num_mul (Fin a) (Fin b) = Fin (a * b)"
| "num_mul (Fin a) PInf = (if a = 0 then NaN else if 0 < a then PInf else NInf)"
| "num_mul (Fin a) NInf = (if a = 0 then NaN else if 0 < a then NInf else PInf)"
| "num_mul PInf (Fin b) = (if b = 0 then NaN else if 0 < b then PInf else NInf)"
| "num_mul NInf (Fin b) = (if b = 0 then NaN else if 0 < b then NInf else PInf)"
| "num_mul PInf PInf = PInf"
| "num_mul PInf NInf = NInf"
| "num_mul NInf PInf = NInf"
| "num_mul NInf NInf = PInf"

fun num_div :: "number \<Rightarrow> number \<Rightarrow> number" where
  "num_div NaN _ = NaN"
| "num_div _ NaN = NaN"
| "num_div (Fin a) (Fin b) =
     (if b = 0 then (if a = 0 then NaN else if 0 < a then PInf else NInf)
      else Fin (a / b))"
| "num_div (Fin a) PInf = Fin 0"
| "num_div (Fin a) NInf = Fin 0"
| "num_div PInf (Fin b) = (if b < 0 then NInf else PInf)"
| "num_div NInf (Fin b) = (if b < 0 then PInf else NInf)"
| "num_div PInf PInf = NaN"
| "num_div PInf NInf = NaN"
| "num_div NInf PInf = NaN"
| "num_div NInf NInf = NaN"

fun num_lt :: "number \<Rightarrow> number \<Rightarrow> bool" where
  "num_lt NaN _ = False"
| "num_lt _ NaN = False"
| "num_lt (Fin a) (Fin b) = (a < b)"
| "num_lt (Fin a) PInf = True"
| "num_lt (Fin a) NInf = False"
| "num_lt PInf _ = False"
| "num_lt NInf (Fin b) = True"
| "num_lt NInf PInf = True"
| "num_lt NInf NInf = False"

definition num_gt :: "number \<Rightarrow> number \<Rightarrow> bool" where
  "num_gt a b = num_lt b a"


section \<open>The coordinate mapping of a touch release\<close>

text \<open>
  A position \<open>{x, y}\<close> and a relative position \<open>{xPercent, yPercent}\<close> are pairs, in
  that order. A \<open>domRect\<close> is what \<open>getBoundingClientRect\<close> returns.
\<close>

type_synonym position = "number \<times> number"
type_synonym relativePosition = "number \<times> number"

record domRect =
  rectLeft :: number
  rectTop :: number
  rectWidth :: number
  rectHeight :: number

text \<open>
  The body of \<open>handleTouchEnd\<close> for a release over the drop zone, in the steps of the
  source: the size of the rendered image under \<open>object-fit: contain\<close>, the centering
  offsets, the release point relative to the container and to the image, the bounds check
  and the percentages.
\<close>

definition renderedSize :: "number \<Rightarrow> number \<Rightarrow> number \<Rightarrow> number \<Rightarrow> number \<times> number" where
  "renderedSize naturalWidth naturalHeight containerWidth containerHeight =
     (let imageAspectRatio = num_div naturalWidth naturalHeight;
          containerAspectRatio = num_div containerWidth containerHeight
      in if num_gt imageAspectRatio containerAspectRatio
         then (containerWidth, num_div containerWidth imageAspectRatio)
         else (num_mul containerHeight imageAspectRatio, containerHeight))"

definition renderedWidth :: "number \<Rightarrow> number \<Rightarrow> domRect \<Rightarrow> number" where
  "renderedWidth naturalWidth naturalHeight containerRect =
     fst (renderedSize naturalWidth naturalHeight (rectWidth containerRect) (rectHeight containerRect))"

definition renderedHeight :: "number \<Rightarrow> number \<Rightarrow> domRect \<Rightarrow> number" where
  "renderedHeight naturalWidth naturalHeight containerRect =
     snd (renderedSize naturalWidth naturalHeight (rectWidth containerRect) (rectHeight containerRect))"

definition offsetX :: "number \<Rightarrow> number \<Rightarrow> domRect \<Rightarrow> number" where
  "offsetX naturalWidth naturalHeight containerRect =
     num_div (num_sub (rectWidth containerRect)
                (renderedWidth naturalWidth naturalHeight containerRect)) (Fin 2)"

definition offsetY :: "number \<Rightarrow> number \<Rightarrow> domRect \<Rightarrow> number" where
  "offsetY naturalWidth naturalHeight containerRect =
     num_div (num_sub (rectHeight containerRect)
                (renderedHeight naturalWidth naturalHeight containerRect)) (Fin 2)"

definition dropX :: "number \<Rightarrow> domRect \<Rightarrow> number" where
  "dropX clientX containerRect = num_sub clientX (rectLeft containerRect)"

definition dropY :: "number \<Rightarrow> domRect \<Rightarrow> number" where
  "dropY clientY containerRect = num_sub clientY (rectTop containerRect)"

definition imageX :: "number \<Rightarrow> number \<Rightarrow> number \<Rightarrow> domRect \<Rightarrow> number" where
  "imageX naturalWidth naturalHeight clientX containerRect =
     num_sub (dropX clientX containerRect) (offsetX naturalWidth naturalHeight containerRect)"

definition imageY :: "number \<Rightarrow> number \<Rightarrow> number \<Rightarrow> domRect \<Rightarrow> number" where
  "imageY naturalWidth naturalHeight clientY containerRect =
     num_sub (dropY clientY containerRect) (offsetY naturalWidth naturalHeight containerRect)"

text \<open>The negated condition of the source's \<open>if\<close>: the release is outside the image.\<close>

definition outOfBounds :: "number \<Rightarrow> number \<Rightarrow> number \<Rightarrow> number \<Rightarrow> domRect \<Rightarrow> bool" where
  "outOfBounds naturalWidth naturalHeight clientX clientY containerRect =
     (num_lt (imageX naturalWidth naturalHeight clientX containerRect) (Fin 0)
      \<or> num_gt (imageX naturalWidth naturalHeight clientX containerRect)
           (renderedWidth naturalWidth naturalHeight containerRect)
      \<or> num_lt (imageY naturalWidth naturalHeight clientY containerRect) (Fin 0)
      \<or> num_gt (imageY naturalWidth naturalHeight clientY containerRect)
           (renderedHeight naturalWidth naturalHeight containerRect))"

definition xPercent :: "number \<Rightarrow> number \<Rightarrow> number \<Rightarrow> domRect \<Rightarrow> number" where
  "xPercent naturalWidth naturalHeight clientX containerRect =
     num_mul (num_div (imageX naturalWidth naturalHeight clientX containerRect)
                (renderedWidth naturalWidth naturalHeight containerRect)) (Fin 100)"

definition yPercent :: "number \<Rightarrow> number \<Rightarrow> number \<Rightarrow> domRect \<Rightarrow> number" where
  "yPercent naturalWidth naturalHeight clientY containerRect =
     num_mul (num_div (imageY naturalWidth naturalHeight clientY containerRect)
                (renderedHeight naturalWidth naturalHeight containerRect)) (Fin 100)"

text \<open>
  The arguments with which \<open>handleTouchEnd\<close> calls \<open>handleProductDrop\<close>, or \<open>None\<close>
  when it does not call it.
\<close>

definition touchDrop ::
  "number \<Rightarrow> number \<Rightarrow> number \<Rightarrow> number \<Rightarrow> domRect \<Rightarrow> (position \<times> relativePosition) option" where
  "touchDrop naturalWidth naturalHeight clientX clientY containerRect =
     (if \<not> outOfBounds naturalWidth naturalHeight clientX clientY containerRect
      then Some ((dropX clientX containerRect, dropY clientY containerRect),
                 (xPercent naturalWidth naturalHeight clientX containerRect,
                  yPercent naturalWidth naturalHeight clientY containerRect))
      else None)"


section \<open>Files, products and history entries\<close>

text \<open>
  A \<open>File\<close> is kept as the arguments it was constructed from: its bytes, its name and
  the \<open>type\<close> option. A thrown value is \<open>Some message\<close> when it is an \<open>Error\<close>
  and \<open>None\<close> otherwise, which is all the \<open>catch\<close> blocks of the source look at.
\<close>

record File =
  fileBits :: string
  fileName :: string
  fileTypeOption :: string

type_synonym thrown = "string option"

definition errorMessage :: "thrown \<Rightarrow> string" where
  "errorMessage err = (case err of Some message \<Rightarrow> message | None \<Rightarrow> ''An unknown error occurred.'')"

record Product =
  productId :: nat
  productName :: string
  imageUrl :: string

record HistoryEntry =
  sceneFile :: File
  persistedOrbPosition :: "position option"
  debugImageUrl :: "string option"
  debugPrompt :: "string option"
  productRotation :: int

subsection \<open>\<open>dataURLtoFile\<close>\<close>

text \<open>\<open>String.prototype.split\<close> with a one-character separator.\<close>

fun split_on :: "char \<Rightarrow> string \<Rightarrow> string list" where
  "split_on sep [] = [[]]"
| "split_on sep (c # cs) =
     (if c = sep then [] # split_on sep cs
      else (case split_on sep cs of
              [] \<Rightarrow> [[c]]
            | part # parts \<Rightarrow> (c # part) # parts))"

text \<open>
  The capture group of \<open>/:(.*?);/\<close>: at the leftmost colon that is followed by a
  semicolon with no line break in between, the characters up to the first semicolon.
  Characters are bytes here, so of the line terminators of JavaScript only the line feed
  and the carriage return occur.
\<close>

definition lineTerminator :: "char \<Rightarrow> bool" where
  "lineTerminator c = (c = CHR 0x0A \<or> c = CHR 0x0D)"

fun mimeMatch :: "string \<Rightarrow> string option" where
  "mimeMatch [] = None"
| "mimeMatch (c # cs) =
     (if c = CHR '':''
      then (case dropWhile (\<lambda>d. d \<noteq> CHR '';'' \<and> \<not> lineTerminator d) cs of
              [] \<Rightarrow> mimeMatch cs
            | d # _ \<Rightarrow>
                if d = CHR '';''
                then Some (takeWhile (\<lambda>d. d \<noteq> CHR '';'' \<and> \<not> lineTerminator d) cs)
                else mimeMatch cs)
      else mimeMatch cs)"

text \<open>
  \<open>atob\<close> is the host's base64 decoder, a parameter of the model: it returns the decoded
  bytes or throws. The loop of the source copies the decoded characters into the byte
  array one by one, so the file's bytes are the decoded string.
\<close>

definition dataURLtoFile :: "(string \<Rightarrow> thrown + string) \<Rightarrow> string \<Rightarrow> string \<Rightarrow> thrown + File" where
  "dataURLtoFile atob dataurl filename =
     (let arr = split_on CHR '','' dataurl
      in if length arr < 2 then Inl (Some ''Invalid data URL'')
         else (case mimeMatch (arr ! 0) of
                 None \<Rightarrow> Inl (Some ''Could not parse MIME type from data URL'')
               | Some mime \<Rightarrow>
                   if mime = [] then Inl (Some ''Could not parse MIME type from data URL'')
                   else (case atob (arr ! 1) of
                           Inl err \<Rightarrow> Inl err
                         | Inr bstr \<Rightarrow>
                             Inr \<lparr>fileBits = bstr, fileName = filename, fileTypeOption = mime\<rparr>)))"

text \<open>The decimal numeral of \<open>Date.now()\<close> inside a template string.\<close>

function decimal :: "nat \<Rightarrow> string" where
  "decimal n =
     (if n < 10 then [''0123456789'' ! n]
      else decimal (n div 10) @ [''0123456789'' ! (n mod 10)])"
  by pat_completeness auto
termination
  by (relation "measure (\<lambda>n. n)") auto

section \<open>The state of the application\<close>

text \<open>
  The state variables of \<open>App\<close> that its handlers read and write. Left out are the index
  of the loading message, the flag of the debug dialog and the object URL of the scene,
  which no handler below reads. \<open>generateCalls\<close> is not a variable of the source: it
  records, in order, the arguments of every call of \<open>generateCompositeImage\<close>, the one
  effect of the handlers outside the state.

  \<open>handleProductDrop\<close> is asynchronous. The model runs it as one step, from the call to
  the \<open>finally\<close> block, with the outcome of the awaited call given; nothing else runs in
  between.
\<close>

type_synonym generateCall = "File \<times> string \<times> File \<times> string \<times> relativePosition \<times> int"

record App =
  selectedProduct :: "Product option"
  productImageFile :: "File option"
  isLoading :: bool
  error :: "string option"
  loadingOrbPosition :: "position option"
  productRotationState :: int
  history :: "HistoryEntry list"
  historyIndex :: int
  isTouchDragging :: bool
  touchGhostPosition :: "position option"
  isHoveringDropZone :: bool
  touchOrbPosition :: "position option"
  generateCalls :: "generateCall list"

definition initialApp :: App where
  "initialApp =
     \<lparr>selectedProduct = None, productImageFile = None, isLoading = False, error = None,
      loadingOrbPosition = None, productRotationState = 0, history = [], historyIndex = - 1,
      isTouchDragging = False, touchGhostPosition = None, isHoveringDropZone = False,
      touchOrbPosition = None, generateCalls = []\<rparr>"

text \<open>\<open>history[historyIndex]\<close>: \<open>undefined\<close> outside the array.\<close>

definition currentHistoryEntry :: "App \<Rightarrow> HistoryEntry option" where
  "currentHistoryEntry s =
     (if 0 \<le> historyIndex s \<and> historyIndex s < int (length (history s))
      then Some (history s ! nat (historyIndex s)) else None)"

definition sceneImage :: "App \<Rightarrow> File option" where
  "sceneImage s = map_option sceneFile (currentHistoryEntry s)"

definition canUndo :: "App \<Rightarrow> bool" where
  "canUndo s = (historyIndex s > 0)"

definition canRedo :: "App \<Rightarrow> bool" where
  "canRedo s = (historyIndex s < int (length (history s)) - 1)"


section \<open>The handlers\<close>

text \<open>
  What the host supplies to a handler is an argument of its model: \<open>created\<close> is the
  result of \<open>URL.createObjectURL\<close>, \<open>now\<close> the value of \<open>Date.now()\<close>,
  \<open>fetched\<close> the two default images or the value thrown while fetching them, and
  \<open>outcome\<close> the result of awaiting \<open>generateCompositeImage\<close>.
\<close>

definition handleProductImageUpload :: "(thrown + string) \<Rightarrow> nat \<Rightarrow> File \<Rightarrow> App \<Rightarrow> App" where
  "handleProductImageUpload created now file s =
     (case created of
        Inr url \<Rightarrow>
          s\<lparr>error := None,
            productImageFile := Some file,
            selectedProduct :=
              Some \<lparr>productId = now, productName = fileName file, imageUrl = url\<rparr>,
            productRotationState := 0\<rparr>
      | Inl err \<Rightarrow>
          s\<lparr>error := Some (''Could not load the product image. Details: '' @ errorMessage err)\<rparr>)"

definition handleSceneUpload :: "File \<Rightarrow> App \<Rightarrow> App" where
  "handleSceneUpload file s =
     s\<lparr>history :=
         [\<lparr>sceneFile = file, persistedOrbPosition = None, debugImageUrl = None,
           debugPrompt = None, productRotation = 0\<rparr>],
       historyIndex := 0\<rparr>"

definition handleInstantStart ::
  "(thrown + string \<times> string) \<Rightarrow> (thrown + string) \<Rightarrow> nat \<Rightarrow> App \<Rightarrow> App" where
  "handleInstantStart fetched created now s =
     (case fetched of
        Inr (objectBlob, sceneBlob) \<Rightarrow>
          (let objectFile =
                 \<lparr>fileBits = objectBlob, fileName = ''object.jpeg'', fileTypeOption = ''image/jpeg''\<rparr>;
               sceneFile =
                 \<lparr>fileBits = sceneBlob, fileName = ''scene.jpeg'', fileTypeOption = ''image/jpeg''\<rparr>
           in handleProductImageUpload created now objectFile
                (handleSceneUpload sceneFile (s\<lparr>error := None\<rparr>)))
      | Inl err \<Rightarrow>
          s\<lparr>error := Some (''Could not load default images. Details: '' @ errorMessage err)\<rparr>)"

text \<open>The value that \<open>generateCompositeImage\<close> resolves to, and the two ways the call ends.\<close>

record Composite =
  finalImageUrl :: string
  compositeDebugImageUrl :: "string option"
  finalPrompt :: "string option"

datatype outcome = Rejected thrown | Resolved Composite

text \<open>\<open>xs.slice(0, end)\<close>: a negative \<open>end\<close> counts from the end of the array.\<close>

definition slice0 :: "'a list \<Rightarrow> int \<Rightarrow> 'a list" where
  "slice0 xs e =
     (let len = int (length xs);
          k = (if e < 0 then max (len + e) 0 else min e len)
      in take (nat k) xs)"

text \<open>The three statements of \<open>handleProductDrop\<close> that write the history.\<close>

definition appendEntry :: "HistoryEntry \<Rightarrow> App \<Rightarrow> App" where
  "appendEntry newEntry s =
     (let newHistory = slice0 (history s) (historyIndex s + 1)
      in s\<lparr>history := newHistory @ [newEntry], historyIndex := int (length newHistory)\<rparr>)"

text \<open>The \<open>catch\<close> block and the \<open>finally\<close> block of \<open>handleProductDrop\<close>.\<close>

definition dropFailed :: "thrown \<Rightarrow> App \<Rightarrow> App" where
  "dropFailed err s = s\<lparr>error := Some (''Failed to generate the image. '' @ errorMessage err)\<rparr>"

definition dropFinally :: "App \<Rightarrow> App" where
  "dropFinally s = s\<lparr>isLoading := False, loadingOrbPosition := None\<rparr>"

definition handleProductDrop ::
  "(string \<Rightarrow> thrown + string) \<Rightarrow> outcome \<Rightarrow> nat \<Rightarrow> position \<Rightarrow> relativePosition \<Rightarrow> App \<Rightarrow> App" where
  "handleProductDrop atob outcome now position relativePosition s =
     (case (productImageFile s, sceneImage s, selectedProduct s) of
        (Some productFile, Some scene, Some selected) \<Rightarrow>
          (let s1 = s\<lparr>loadingOrbPosition := Some position, isLoading := True, error := None,
                      generateCalls := generateCalls s @
                        [(productFile, productName selected, scene, fileName scene,
                          relativePosition, productRotationState s)]\<rparr>
           in dropFinally
                (case outcome of
                   Rejected err \<Rightarrow> dropFailed err s1
                 | Resolved result \<Rightarrow>
                     (case dataURLtoFile atob (finalImageUrl result)
                             (''generated-scene-'' @ decimal now @ ''.jpeg'') of
                        Inl err \<Rightarrow> dropFailed err s1
                      | Inr newSceneFile \<Rightarrow>
                          appendEntry
                            \<lparr>sceneFile = newSceneFile,
                             persistedOrbPosition = Some position,
                             debugImageUrl = compositeDebugImageUrl result,
                             debugPrompt = finalPrompt result,
                             productRotation = productRotationState s\<rparr> s1)))
      | _ \<Rightarrow> s\<lparr>error := Some ''An unexpected error occurred. Please try again.''\<rparr>)"

definition handleReset :: "App \<Rightarrow> App" where
  "handleReset s =
     s\<lparr>selectedProduct := None, productImageFile := None, history := [], historyIndex := - 1,
       error := None, isLoading := False, productRotationState := 0\<rparr>"

definition handleChangeProduct :: "App \<Rightarrow> App" where
  "handleChangeProduct s =
     s\<lparr>selectedProduct := None, productImageFile := None, productRotationState := 0\<rparr>"

definition handleChangeScene :: "App \<Rightarrow> App" where
  "handleChangeScene s = s\<lparr>history := [], historyIndex := - 1, productRotationState := 0\<rparr>"

definition handleUndo :: "App \<Rightarrow> App" where
  "handleUndo s = (if historyIndex s > 0 then s\<lparr>historyIndex := historyIndex s - 1\<rparr> else s)"

definition handleRedo :: "App \<Rightarrow> App" where
  "handleRedo s =
     (if historyIndex s < int (length (history s)) - 1
      then s\<lparr>historyIndex := historyIndex s + 1\<rparr> else s)"

text \<open>The effect that copies the rotation of the current entry into the rotation state.\<close>

definition syncRotation :: "App \<Rightarrow> App" where
  "syncRotation s =
     (case currentHistoryEntry s of
        Some entry \<Rightarrow> s\<lparr>productRotationState := productRotation entry\<rparr>
      | None \<Rightarrow> s)"

definition handleTouchStart :: "number \<Rightarrow> number \<Rightarrow> App \<Rightarrow> App" where
  "handleTouchStart clientX clientY s =
     (if selectedProduct s = None then s
      else s\<lparr>isTouchDragging := True, touchGhostPosition := Some (clientX, clientY)\<rparr>)"

text \<open>
  \<open>dropZone\<close> is the bounding rectangle of the drop zone under the touch point, when
  there is one; \<open>img\<close> holds \<open>naturalWidth\<close> and \<open>naturalHeight\<close> of the scene image
  element, when the reference to it is set.
\<close>

definition handleTouchMove :: "number \<Rightarrow> number \<Rightarrow> domRect option \<Rightarrow> App \<Rightarrow> App" where
  "handleTouchMove clientX clientY dropZone s =
     (if \<not> isTouchDragging s then s
      else (case dropZone of
              Some rect \<Rightarrow>
                s\<lparr>touchGhostPosition := Some (clientX, clientY),
                  touchOrbPosition :=
                    Some (num_sub clientX (rectLeft rect), num_sub clientY (rectTop rect)),
                  isHoveringDropZone := True\<rparr>
            | None \<Rightarrow>
                s\<lparr>touchGhostPosition := Some (clientX, clientY),
                  isHoveringDropZone := False, touchOrbPosition := None\<rparr>))"

definition handleTouchEnd ::
  "(string \<Rightarrow> thrown + string) \<Rightarrow> outcome \<Rightarrow> nat \<Rightarrow> number \<Rightarrow> number \<Rightarrow> domRect option \<Rightarrow>
   (number \<times> number) option \<Rightarrow> App \<Rightarrow> App" where
  "handleTouchEnd atob outcome now clientX clientY dropZone img s =
     (if \<not> isTouchDragging s then s
      else (let s1 =
                  (case (dropZone, img) of
                     (Some containerRect, Some (naturalWidth, naturalHeight)) \<Rightarrow>
                       (case touchDrop naturalWidth naturalHeight clientX clientY containerRect of
                          Some (position, relativePosition) \<Rightarrow>
                            handleProductDrop atob outcome now position relativePosition s
                        | None \<Rightarrow> s)
                   | _ \<Rightarrow> s)
            in s1\<lparr>isTouchDragging := False, touchGhostPosition := None,
                  isHoveringDropZone := False, touchOrbPosition := None\<rparr>))"

section \<open>Runs of the application\<close>

text \<open>
  One event for each handler and for the rotation effect, with what the host supplies.
  \<open>ProductDrop\<close> is the call of \<open>handleProductDrop\<close> by the scene uploader, which
  receives it as \<open>onProductDrop\<close>; \<open>SetProductRotation\<close> is the slider and its reset
  button.
\<close>

datatype event =
    ProductImageUpload "thrown + string" nat File
  | SceneUpload File
  | InstantStart "thrown + string \<times> string" "thrown + string" nat
  | ProductDrop outcome nat position relativePosition
  | Reset
  | ChangeProduct
  | ChangeScene
  | Undo
  | Redo
  | SetProductRotation int
  | SyncRotation
  | TouchStart number number
  | TouchMove number number "domRect option"
  | TouchEnd outcome nat number number "domRect option" "(number \<times> number) option"

fun step :: "(string \<Rightarrow> thrown + string) \<Rightarrow> App \<Rightarrow> event \<Rightarrow> App" where
  "step atob s (ProductImageUpload created now file) = handleProductImageUpload created now file s"
| "step atob s (SceneUpload file) = handleSceneUpload file s"
| "step atob s (InstantStart fetched created now) = handleInstantStart fetched created now s"
| "step atob s (ProductDrop outcome now position relativePosition) =
     handleProductDrop atob outcome now position relativePosition s"
| "step atob s Reset = handleReset s"
| "step atob s ChangeProduct = handleChangeProduct s"
| "step atob s ChangeScene = handleChangeScene s"
| "step atob s Undo = handleUndo s"
| "step atob s Redo = handleRedo s"
| "step atob s (SetProductRotation r) = s\<lparr>productRotationState := r\<rparr>"
| "step atob s SyncRotation = syncRotation s"
| "step atob s (TouchStart clientX clientY) = handleTouchStart clientX clientY s"
| "step atob s (TouchMove clientX clientY dropZone) = handleTouchMove clientX clientY dropZone s"
| "step atob s (TouchEnd outcome now clientX clientY dropZone img) =
     handleTouchEnd atob outcome now clientX clientY dropZone img s"

definition run :: "(string \<Rightarrow> thrown + string) \<Rightarrow> event list \<Rightarrow> App" where
  "run atob events = foldl (step atob) initialApp events"


section \<open>Invariants of the history\<close>

text \<open>The cursor is \<open>-1\<close> on the empty history and an index of the history otherwise.\<close>

definition cursorInRange :: "App \<Rightarrow> bool" where
  "cursorInRange s =
     (if history s = [] then historyIndex s = - 1
      else 0 \<le> historyIndex s \<and> historyIndex s < int (length (history s)))"

text \<open>The first entry carries no marker position, no debug image and no debug prompt.\<close>

definition firstEntryRaw :: "App \<Rightarrow> bool" where
  "firstEntryRaw s =
     (case history s of
        [] \<Rightarrow> True
      | first # _ \<Rightarrow>
          persistedOrbPosition first = None \<and> debugImageUrl first = None \<and> debugPrompt first = None)"

section \<open>Concrete inputs\<close>

text \<open>
  The values at which the theorems below are instantiated: a decoder that knows one
  base64 string, a history of three entries with the cursor on the last one, a composite
  whose data URL decodes, the container of 300 by 300 at a given place, a container of
  width zero, and a short run.
\<close>

definition sampleAtob :: "string \<Rightarrow> thrown + string" where
  "sampleAtob b =
     (if b = ''QUJD'' then Inr ''ABC''
      else Inl (Some ''The string to be decoded is not correctly encoded.''))"

definition sampleFile :: "string \<Rightarrow> File" where
  "sampleFile name = \<lparr>fileBits = ''ABC'', fileName = name, fileTypeOption = ''image/jpeg''\<rparr>"

definition sampleEntry :: "string \<Rightarrow> position option \<Rightarrow> HistoryEntry" where
  "sampleEntry name marker =
     \<lparr>sceneFile = sampleFile name, persistedOrbPosition = marker,
      debugImageUrl = None, debugPrompt = None, productRotation = 0\<rparr>"

definition sampleApp :: App where
  "sampleApp =
     initialApp
       \<lparr>selectedProduct :=
          Some \<lparr>productId = 7, productName = ''object.jpeg'', imageUrl = ''blob:1''\<rparr>,
        productImageFile := Some (sampleFile ''object.jpeg''),
        history := [sampleEntry ''A'' None, sampleEntry ''B'' (Some (Fin 1, Fin 1)),
                    sampleEntry ''C'' (Some (Fin 2, Fin 2))],
        historyIndex := 2\<rparr>"

definition sampleComposite :: Composite where
  "sampleComposite =
     \<lparr>finalImageUrl = ''data:image/jpeg;base64,QUJD'',
      compositeDebugImageUrl = Some ''data:image/jpeg;base64,QUJD'',
      finalPrompt = Some ''Place the product''\<rparr>"

definition specRect :: "rat \<Rightarrow> rat \<Rightarrow> domRect" where
  "specRect l t = \<lparr>rectLeft = Fin l, rectTop = Fin t, rectWidth = Fin 300, rectHeight = Fin 300\<rparr>"

definition zeroWidthRect :: domRect where
  "zeroWidthRect = \<lparr>rectLeft = Fin 0, rectTop = Fin 0, rectWidth = Fin 0, rectHeight = Fin 300\<rparr>"

definition sampleEvents :: "event list" where
  "sampleEvents =
     [SceneUpload (sampleFile ''scene.jpeg''),
      ProductImageUpload (Inr ''blob:1'') 7 (sampleFile ''object.jpeg''),
      ProductDrop (Resolved sampleComposite) 5 (Fin 3, Fin 3) (Fin 50, Fin 50),
      Undo]"

section \<open>Auxiliary facts\<close>

declare decimal.simps [simp del]

lemmas mapper_defs = renderedWidth_def renderedHeight_def offsetX_def offsetY_def
  dropX_def dropY_def imageX_def imageY_def outOfBounds_def xPercent_def yPercent_def
  touchDrop_def num_gt_def

lemma renderedSize_zero:
  assumes "0 < nw" "0 < nh" "0 \<le> cw" "0 \<le> ch" "cw = 0 \<or> ch = 0"
  shows "renderedSize (Fin nw) (Fin nh) (Fin cw) (Fin ch) = (Fin 0, Fin 0)"
  using assms by (auto simp add: renderedSize_def Let_def num_gt_def)

lemma outOfBounds_rejected:
  assumes "outOfBounds nw nh cx cy rect"
  shows "handleTouchEnd atob outcome now cx cy (Some rect) (Some (nw, nh)) s =
           (if isTouchDragging s
            then s\<lparr>isTouchDragging := False, touchGhostPosition := None,
                   isHoveringDropZone := False, touchOrbPosition := None\<rparr>
            else s)"
  using assms by (simp add: handleTouchEnd_def touchDrop_def)

lemma slice0_take: "- 1 \<le> i \<Longrightarrow> slice0 xs (i + 1) = take (nat (i + 1)) xs"
  by (simp add: slice0_def Let_def min_def)

lemma slice0_in_range:
  "0 \<le> i \<Longrightarrow> i < int (length xs) \<Longrightarrow> slice0 xs (i + 1) = take (Suc (nat i)) xs"
  by (simp add: slice0_def Let_def min_def Suc_nat_eq_nat_zadd1 add.commute)

lemma sceneImage_Some_range:
  "sceneImage s = Some sc \<Longrightarrow> 0 \<le> historyIndex s \<and> historyIndex s < int (length (history s))"
  by (simp add: sceneImage_def currentHistoryEntry_def split: if_splits)

lemma appendEntry_in_range:
  assumes "0 \<le> historyIndex s" "historyIndex s < int (length (history s))"
  shows "history (appendEntry e s) = take (Suc (nat (historyIndex s))) (history s) @ [e]"
    and "historyIndex (appendEntry e s) = historyIndex s + 1"
  using assms by (auto simp add: appendEntry_def Let_def slice0_in_range min_def)

lemma handleProductDrop_resolved:
  assumes "productImageFile s = Some pf" "selectedProduct s = Some sp" "sceneImage s = Some sc"
    and "dataURLtoFile atob (finalImageUrl r) (''generated-scene-'' @ decimal now @ ''.jpeg'') = Inr f"
  shows "handleProductDrop atob (Resolved r) now pos rel s =
     dropFinally (appendEntry \<lparr>sceneFile = f, persistedOrbPosition = Some pos,
        debugImageUrl = compositeDebugImageUrl r, debugPrompt = finalPrompt r,
        productRotation = productRotationState s\<rparr>
       (s\<lparr>loadingOrbPosition := Some pos, isLoading := True, error := None,
          generateCalls := generateCalls s @
            [(pf, productName sp, sc, fileName sc, rel, productRotationState s)]\<rparr>))"
  using assms by (simp add: handleProductDrop_def Let_def)

text \<open>
  A call of \<open>handleProductDrop\<close> either leaves the history and the cursor alone, or the
  awaited call resolved, its image decoded, the cursor was on an entry, and the history is
  cut after that entry and extended by the new one.
\<close>

lemma handleProductDrop_cases:
  "(history (handleProductDrop atob outcome now pos rel s) = history s \<and>
    historyIndex (handleProductDrop atob outcome now pos rel s) = historyIndex s) \<or>
   (\<exists>r f. outcome = Resolved r \<and>
      0 \<le> historyIndex s \<and> historyIndex s < int (length (history s)) \<and>
      dataURLtoFile atob (finalImageUrl r) (''generated-scene-'' @ decimal now @ ''.jpeg'') = Inr f \<and>
      history (handleProductDrop atob outcome now pos rel s) =
        take (Suc (nat (historyIndex s))) (history s) @
          [\<lparr>sceneFile = f, persistedOrbPosition = Some pos,
            debugImageUrl = compositeDebugImageUrl r, debugPrompt = finalPrompt r,
            productRotation = productRotationState s\<rparr>] \<and>
      historyIndex (handleProductDrop atob outcome now pos rel s) = historyIndex s + 1)"
proof (cases "productImageFile s")
  case None
  then show ?thesis by (simp add: handleProductDrop_def)
next
  case pf: (Some productFile)
  show ?thesis
  proof (cases "sceneImage s")
    case None
    then show ?thesis using pf by (simp add: handleProductDrop_def)
  next
    case sc: (Some scene)
    note range = sceneImage_Some_range [OF sc]
    show ?thesis
    proof (cases "selectedProduct s")
      case None
      then show ?thesis using pf sc by (simp add: handleProductDrop_def)
    next
      case sp: (Some selected)
      show ?thesis
      proof (cases outcome)
        case (Rejected err)
        then show ?thesis using pf sc sp
          by (simp add: handleProductDrop_def Let_def dropFinally_def dropFailed_def)
      next
        case res: (Resolved r)
        show ?thesis
        proof (cases "dataURLtoFile atob (finalImageUrl r)
                        (''generated-scene-'' @ decimal now @ ''.jpeg'')")
          case (Inl err)
          then show ?thesis using pf sc sp res
            by (simp add: handleProductDrop_def Let_def dropFinally_def dropFailed_def)
        next
          case (Inr f)
          then show ?thesis using pf sc sp res range
            by (simp add: handleProductDrop_resolved [OF pf sp sc] dropFinally_def
                appendEntry_in_range)
        qed
      qed
    qed
  qed
qed

lemma handleTouchEnd_history:
  "(history (handleTouchEnd atob outcome now cx cy dz img s) = history s \<and>
    historyIndex (handleTouchEnd atob outcome now cx cy dz img s) = historyIndex s) \<or>
   (\<exists>pos rel.
      history (handleTouchEnd atob outcome now cx cy dz img s) =
        history (handleProductDrop atob outcome now pos rel s) \<and>
      historyIndex (handleTouchEnd atob outcome now cx cy dz img s) =
        historyIndex (handleProductDrop atob outcome now pos rel s))"
  by (auto simp add: handleTouchEnd_def Let_def split: option.splits)

subsection \<open>Every step keeps the two invariants\<close>

lemma handleProductDrop_cursor:
  assumes "cursorInRange s"
  shows "cursorInRange (handleProductDrop atob outcome now pos rel s)"
  using handleProductDrop_cases [of atob outcome now pos rel s] assms
  by (auto simp add: cursorInRange_def)

lemma handleProductDrop_first:
  assumes "firstEntryRaw s"
  shows "firstEntryRaw (handleProductDrop atob outcome now pos rel s)"
  using handleProductDrop_cases [of atob outcome now pos rel s] assms
  by (auto simp add: firstEntryRaw_def split: list.splits)

lemma step_cursor: "cursorInRange s \<Longrightarrow> cursorInRange (step atob s ev)"
proof (cases ev)
  case (ProductDrop outcome now pos rel)
  assume "cursorInRange s"
  then show ?thesis by (simp add: ProductDrop handleProductDrop_cursor)
next
  case (TouchEnd outcome now cx cy dz img)
  assume inv: "cursorInRange s"
  show ?thesis
    using handleTouchEnd_history [of atob outcome now cx cy dz img s] inv
      handleProductDrop_cursor [OF inv, of atob outcome now]
    by (auto simp add: TouchEnd cursorInRange_def)
qed (auto simp add: cursorInRange_def handleProductImageUpload_def handleSceneUpload_def
      handleInstantStart_def handleReset_def handleChangeProduct_def handleChangeScene_def
      handleUndo_def handleRedo_def syncRotation_def handleTouchStart_def handleTouchMove_def
      Let_def split: sum.splits option.splits)

lemma step_first: "firstEntryRaw s \<Longrightarrow> firstEntryRaw (step atob s ev)"
proof (cases ev)
  case (ProductDrop outcome now pos rel)
  assume "firstEntryRaw s"
  then show ?thesis by (simp add: ProductDrop handleProductDrop_first)
next
  case (TouchEnd outcome now cx cy dz img)
  assume inv: "firstEntryRaw s"
  show ?thesis
    using handleTouchEnd_history [of atob outcome now cx cy dz img s] inv
      handleProductDrop_first [OF inv, of atob outcome now]
    by (auto simp add: TouchEnd firstEntryRaw_def)
qed (auto simp add: firstEntryRaw_def handleProductImageUpload_def handleSceneUpload_def
      handleInstantStart_def handleReset_def handleChangeProduct_def handleChangeScene_def
      handleUndo_def handleRedo_def syncRotation_def handleTouchStart_def handleTouchMove_def
      Let_def split: sum.splits option.splits)

lemma foldl_step_cursor: "cursorInRange s \<Longrightarrow> cursorInRange (foldl (step atob) s events)"
  by (induction events arbitrary: s) (simp_all add: step_cursor)

lemma foldl_step_first: "firstEntryRaw s \<Longrightarrow> firstEntryRaw (foldl (step atob) s events)"
  by (induction events arbitrary: s) (simp_all add: step_first)

subsection \<open>The concrete inputs evaluated\<close>

lemma sample_decode:
  "dataURLtoFile sampleAtob (finalImageUrl sampleComposite) name = Inr (sampleFile name)"
  by (simp add: dataURLtoFile_def sampleComposite_def sampleAtob_def sampleFile_def
      lineTerminator_def)

lemma sample_scene: "sceneImage sampleApp = Some (sampleFile ''C'')"
  by (simp add: sceneImage_def currentHistoryEntry_def sampleApp_def initialApp_def
      sampleEntry_def)

lemma sample_run:
  "history (run sampleAtob sampleEvents) =
     [\<lparr>sceneFile = sampleFile ''scene.jpeg'', persistedOrbPosition = None, debugImageUrl = None,
       debugPrompt = None, productRotation = 0\<rparr>,
      \<lparr>sceneFile = sampleFile ''generated-scene-5.jpeg'',
       persistedOrbPosition = Some (Fin 3, Fin 3),
       debugImageUrl = Some ''data:image/jpeg;base64,QUJD'',
       debugPrompt = Some ''Place the product'', productRotation = 0\<rparr>]
   \<and> historyIndex (run sampleAtob sampleEvents) = 0"
  using sample_decode [of "''generated-scene-'' @ decimal 5 @ ''.jpeg''"]
  by (simp add: run_def sampleEvents_def initialApp_def handleSceneUpload_def
      handleProductImageUpload_def handleProductDrop_def sceneImage_def currentHistoryEntry_def
      Let_def dropFinally_def appendEntry_def slice0_def handleUndo_def decimal.simps
      sampleComposite_def)


section \<open>The history\<close>

text \<open>
  Claim C1. For every history log (cursor at least \<open>-1\<close>) and every new entry, the
  append cuts the entries to the indices from 0 to the cursor, adds the new entry at the
  end and puts the cursor on it, so that nothing is left to redo. From the entries
  \<open>[A, B, C]\<close> with the cursor at 2, an undo moves the cursor to 1 and the append of
  \<open>D\<close> then gives \<open>[A, B, D]\<close> with the cursor at 2 and \<open>canRedo\<close> false. A
  successful \<open>handleProductDrop\<close> writes the history and the cursor in exactly this way.
\<close>

theorem append_discards_redo_entries:
  "(- 1 \<le> historyIndex s \<longrightarrow>
      history (appendEntry e s) = take (nat (historyIndex s + 1)) (history s) @ [e]
    \<and> historyIndex (appendEntry e s) = int (length (history (appendEntry e s))) - 1
    \<and> \<not> canRedo (appendEntry e s))
   \<and> (history s = [A, B, C] \<and> historyIndex s = 2 \<longrightarrow>
        historyIndex (handleUndo s) = 1
      \<and> history (appendEntry D (handleUndo s)) = [A, B, D]
      \<and> historyIndex (appendEntry D (handleUndo s)) = 2
      \<and> \<not> canRedo (appendEntry D (handleUndo s)))
   \<and> (productImageFile s = Some pf \<and> selectedProduct s = Some sp \<and> sceneImage s = Some sc \<and>
      dataURLtoFile atob (finalImageUrl r) (''generated-scene-'' @ decimal now @ ''.jpeg'') = Inr f \<longrightarrow>
        history (handleProductDrop atob (Resolved r) now pos rel s) =
          history (appendEntry
            \<lparr>sceneFile = f, persistedOrbPosition = Some pos,
             debugImageUrl = compositeDebugImageUrl r, debugPrompt = finalPrompt r,
             productRotation = productRotationState s\<rparr> s)
      \<and> historyIndex (handleProductDrop atob (Resolved r) now pos rel s) =
          historyIndex (appendEntry
            \<lparr>sceneFile = f, persistedOrbPosition = Some pos,
             debugImageUrl = compositeDebugImageUrl r, debugPrompt = finalPrompt r,
             productRotation = productRotationState s\<rparr> s))"
proof -
  have general: "- 1 \<le> historyIndex s \<longrightarrow>
      history (appendEntry e s) = take (nat (historyIndex s + 1)) (history s) @ [e]
    \<and> historyIndex (appendEntry e s) = int (length (history (appendEntry e s))) - 1
    \<and> \<not> canRedo (appendEntry e s)"
    by (simp add: appendEntry_def Let_def slice0_take canRedo_def)
  have scenario: "history s = [A, B, C] \<and> historyIndex s = 2 \<longrightarrow>
        historyIndex (handleUndo s) = 1
      \<and> history (appendEntry D (handleUndo s)) = [A, B, D]
      \<and> historyIndex (appendEntry D (handleUndo s)) = 2
      \<and> \<not> canRedo (appendEntry D (handleUndo s))"
    by (simp add: appendEntry_def Let_def slice0_def canRedo_def handleUndo_def)
  have drop: "productImageFile s = Some pf \<and> selectedProduct s = Some sp \<and> sceneImage s = Some sc \<and>
      dataURLtoFile atob (finalImageUrl r) (''generated-scene-'' @ decimal now @ ''.jpeg'') = Inr f \<longrightarrow>
        history (handleProductDrop atob (Resolved r) now pos rel s) =
          history (appendEntry
            \<lparr>sceneFile = f, persistedOrbPosition = Some pos,
             debugImageUrl = compositeDebugImageUrl r, debugPrompt = finalPrompt r,
             productRotation = productRotationState s\<rparr> s)
      \<and> historyIndex (handleProductDrop atob (Resolved r) now pos rel s) =
          historyIndex (appendEntry
            \<lparr>sceneFile = f, persistedOrbPosition = Some pos,
             debugImageUrl = compositeDebugImageUrl r, debugPrompt = finalPrompt r,
             productRotation = productRotationState s\<rparr> s)"
    by (simp add: handleProductDrop_def Let_def dropFinally_def appendEntry_def)
  from general scenario drop show ?thesis by blast
qed

theorem append_discards_redo_entries_witness:
  "- 1 \<le> historyIndex sampleApp
   \<and> history sampleApp = [sampleEntry ''A'' None, sampleEntry ''B'' (Some (Fin 1, Fin 1)),
        sampleEntry ''C'' (Some (Fin 2, Fin 2))]
   \<and> historyIndex sampleApp = 2
   \<and> productImageFile sampleApp = Some (sampleFile ''object.jpeg'')
   \<and> sceneImage sampleApp = Some (sampleFile ''C'')
   \<and> dataURLtoFile sampleAtob (finalImageUrl sampleComposite)
        (''generated-scene-'' @ decimal 5 @ ''.jpeg'') = Inr (sampleFile ''generated-scene-5.jpeg'')
   \<and> history (appendEntry (sampleEntry ''D'' (Some (Fin 3, Fin 3))) (handleUndo sampleApp)) =
       [sampleEntry ''A'' None, sampleEntry ''B'' (Some (Fin 1, Fin 1)),
        sampleEntry ''D'' (Some (Fin 3, Fin 3))]
   \<and> historyIndex (handleProductDrop sampleAtob (Resolved sampleComposite) 5 (Fin 3, Fin 3)
        (Fin 50, Fin 50) sampleApp) = 3"
  using append_discards_redo_entries [of sampleApp "sampleEntry ''D'' (Some (Fin 3, Fin 3))"
      "sampleEntry ''A'' None" "sampleEntry ''B'' (Some (Fin 1, Fin 1))"
      "sampleEntry ''C'' (Some (Fin 2, Fin 2))" "sampleEntry ''D'' (Some (Fin 3, Fin 3))"
      "sampleFile ''object.jpeg''"
      "\<lparr>productId = 7, productName = ''object.jpeg'', imageUrl = ''blob:1''\<rparr>"
      "sampleFile ''C''" sampleAtob sampleComposite 5 "sampleFile ''generated-scene-5.jpeg''"
      "(Fin 3, Fin 3)" "(Fin 50, Fin 50)"]
    sample_decode [of "''generated-scene-'' @ decimal 5 @ ''.jpeg''"] sample_scene
  by (simp add: sampleApp_def initialApp_def decimal.simps appendEntry_def slice0_def Let_def
      handleUndo_def canRedo_def)

section \<open>The coordinate mapping\<close>

text \<open>
  Claim C2. The rendered image takes the full width of the container, and the height
  \<open>containerWidth / imageAspectRatio\<close>, when the image's aspect ratio is greater than
  the container's; otherwise it takes the full height, and the width
  \<open>containerHeight * imageAspectRatio\<close>. These are the width and the height the mapping
  works with: the offsets are half of what the container has left over beside them, the
  image-relative point is the container-relative point minus the offsets, and a release
  inside the rendered image is passed on with the percentages
  \<open>imageX / renderedWidth * 100\<close> and \<open>imageY / renderedHeight * 100\<close>.

  For an image of 200 by 100 in a container of 300 by 300 the rendered size is 300 by 150,
  \<open>offsetX\<close> is 0 and \<open>offsetY\<close> is 75; the container point (150, 75) maps to
  (50, 0) percent, the point (75, 112.5) to (25, 25) percent, and the points (150, 10) and
  (150, 226), above and below the image, are rejected. For an image of 100 by 200 in the
  same container the rendered size is 150 by 300, \<open>offsetX\<close> is 75 and \<open>offsetY\<close> is
  0; the container point (112.5, 75) maps to (25, 25) percent, and the points (10, 150) and
  (226, 150), left and right of the image, are rejected. The container sits at (10, 20) in
  the viewport; every number of the two examples is a binary fraction, so the operations
  of the source compute them without rounding.
\<close>

theorem touch_mapping_contain:
  assumes "\<not> outOfBounds nw nh cx cy r"
  shows "renderedWidth nw nh r =
           (if num_gt (num_div nw nh) (num_div (rectWidth r) (rectHeight r))
            then rectWidth r
            else num_mul (rectHeight r) (num_div nw nh))
    \<and> renderedHeight nw nh r =
           (if num_gt (num_div nw nh) (num_div (rectWidth r) (rectHeight r))
            then num_div (rectWidth r) (num_div nw nh)
            else rectHeight r)
    \<and> offsetX nw nh r = num_div (num_sub (rectWidth r) (renderedWidth nw nh r)) (Fin 2)
    \<and> offsetY nw nh r = num_div (num_sub (rectHeight r) (renderedHeight nw nh r)) (Fin 2)
    \<and> imageX nw nh cx r = num_sub (num_sub cx (rectLeft r)) (offsetX nw nh r)
    \<and> imageY nw nh cy r = num_sub (num_sub cy (rectTop r)) (offsetY nw nh r)
    \<and> touchDrop nw nh cx cy r =
         Some ((num_sub cx (rectLeft r), num_sub cy (rectTop r)),
               (num_mul (num_div (imageX nw nh cx r) (renderedWidth nw nh r)) (Fin 100),
                num_mul (num_div (imageY nw nh cy r) (renderedHeight nw nh r)) (Fin 100)))
    \<and> renderedWidth (Fin 200) (Fin 100) (specRect 10 20) = Fin 300
    \<and> renderedHeight (Fin 200) (Fin 100) (specRect 10 20) = Fin 150
    \<and> offsetX (Fin 200) (Fin 100) (specRect 10 20) = Fin 0
    \<and> offsetY (Fin 200) (Fin 100) (specRect 10 20) = Fin 75
    \<and> touchDrop (Fin 200) (Fin 100) (Fin 160) (Fin 95) (specRect 10 20) =
         Some ((Fin 150, Fin 75), (Fin 50, Fin 0))
    \<and> touchDrop (Fin 200) (Fin 100) (Fin 85) (Fin (265 / 2)) (specRect 10 20) =
         Some ((Fin 75, Fin (225 / 2)), (Fin 25, Fin 25))
    \<and> touchDrop (Fin 200) (Fin 100) (Fin 160) (Fin 30) (specRect 10 20) = None
    \<and> touchDrop (Fin 200) (Fin 100) (Fin 160) (Fin 246) (specRect 10 20) = None
    \<and> renderedWidth (Fin 100) (Fin 200) (specRect 10 20) = Fin 150
    \<and> renderedHeight (Fin 100) (Fin 200) (specRect 10 20) = Fin 300
    \<and> offsetX (Fin 100) (Fin 200) (specRect 10 20) = Fin 75
    \<and> offsetY (Fin 100) (Fin 200) (specRect 10 20) = Fin 0
    \<and> touchDrop (Fin 100) (Fin 200) (Fin (245 / 2)) (Fin 95) (specRect 10 20) =
         Some ((Fin (225 / 2), Fin 75), (Fin 25, Fin 25))
    \<and> touchDrop (Fin 100) (Fin 200) (Fin 20) (Fin 170) (specRect 10 20) = None
    \<and> touchDrop (Fin 100) (Fin 200) (Fin 236) (Fin 170) (specRect 10 20) = None"
proof -
  have width: "renderedWidth nw nh r =
           (if num_gt (num_div nw nh) (num_div (rectWidth r) (rectHeight r))
            then rectWidth r
            else num_mul (rectHeight r) (num_div nw nh))"
    by (simp add: renderedWidth_def renderedSize_def Let_def)
  have height: "renderedHeight nw nh r =
           (if num_gt (num_div nw nh) (num_div (rectWidth r) (rectHeight r))
            then num_div (rectWidth r) (num_div nw nh)
            else rectHeight r)"
    by (simp add: renderedHeight_def renderedSize_def Let_def)
  have steps: "offsetX nw nh r = num_div (num_sub (rectWidth r) (renderedWidth nw nh r)) (Fin 2)
      \<and> offsetY nw nh r = num_div (num_sub (rectHeight r) (renderedHeight nw nh r)) (Fin 2)
      \<and> imageX nw nh cx r = num_sub (num_sub cx (rectLeft r)) (offsetX nw nh r)
      \<and> imageY nw nh cy r = num_sub (num_sub cy (rectTop r)) (offsetY nw nh r)"
    by (simp add: offsetX_def offsetY_def imageX_def imageY_def dropX_def dropY_def)
  have general: "touchDrop nw nh cx cy r =
         Some ((num_sub cx (rectLeft r), num_sub cy (rectTop r)),
               (num_mul (num_div (imageX nw nh cx r) (renderedWidth nw nh r)) (Fin 100),
                num_mul (num_div (imageY nw nh cy r) (renderedHeight nw nh r)) (Fin 100)))"
    using assms by (simp add: touchDrop_def dropX_def dropY_def xPercent_def yPercent_def)
  have wide: "renderedSize (Fin 200) (Fin 100) (Fin 300) (Fin 300) = (Fin 300, Fin 150)"
    by (simp add: renderedSize_def num_gt_def)
  have tall: "renderedSize (Fin 100) (Fin 200) (Fin 300) (Fin 300) = (Fin 150, Fin 300)"
    by (simp add: renderedSize_def num_gt_def)
  have wide_box: "renderedWidth (Fin 200) (Fin 100) (specRect 10 20) = Fin 300
      \<and> renderedHeight (Fin 200) (Fin 100) (specRect 10 20) = Fin 150
      \<and> offsetX (Fin 200) (Fin 100) (specRect 10 20) = Fin 0
      \<and> offsetY (Fin 200) (Fin 100) (specRect 10 20) = Fin 75"
    by (simp add: renderedWidth_def renderedHeight_def offsetX_def offsetY_def wide specRect_def)
  have wide_in: "touchDrop (Fin 200) (Fin 100) (Fin 160) (Fin 95) (specRect 10 20) =
         Some ((Fin 150, Fin 75), (Fin 50, Fin 0))
      \<and> touchDrop (Fin 200) (Fin 100) (Fin 85) (Fin (265 / 2)) (specRect 10 20) =
         Some ((Fin 75, Fin (225 / 2)), (Fin 25, Fin 25))"
    by (simp add: mapper_defs wide specRect_def)
  have wide_out: "touchDrop (Fin 200) (Fin 100) (Fin 160) (Fin 30) (specRect 10 20) = None
      \<and> touchDrop (Fin 200) (Fin 100) (Fin 160) (Fin 246) (specRect 10 20) = None"
    by (simp add: mapper_defs wide specRect_def)
  have tall_box: "renderedWidth (Fin 100) (Fin 200) (specRect 10 20) = Fin 150
      \<and> renderedHeight (Fin 100) (Fin 200) (specRect 10 20) = Fin 300
      \<and> offsetX (Fin 100) (Fin 200) (specRect 10 20) = Fin 75
      \<and> offsetY (Fin 100) (Fin 200) (specRect 10 20) = Fin 0"
    by (simp add: renderedWidth_def renderedHeight_def offsetX_def offsetY_def tall specRect_def)
  have tall_in: "touchDrop (Fin 100) (Fin 200) (Fin (245 / 2)) (Fin 95) (specRect 10 20) =
         Some ((Fin (225 / 2), Fin 75), (Fin 25, Fin 25))"
    by (simp add: mapper_defs tall specRect_def)
  have tall_out: "touchDrop (Fin 100) (Fin 200) (Fin 20) (Fin 170) (specRect 10 20) = None
      \<and> touchDrop (Fin 100) (Fin 200) (Fin 236) (Fin 170) (specRect 10 20) = None"
    by (simp add: mapper_defs tall specRect_def)
  from width height steps general wide_box wide_in wide_out tall_box tall_in tall_out
  show ?thesis by blast
qed

theorem touch_mapping_contain_witness:
  "\<not> outOfBounds (Fin 100) (Fin 200) (Fin (245 / 2)) (Fin 95) (specRect 10 20)
   \<and> renderedWidth (Fin 100) (Fin 200) (specRect 10 20) = Fin 150
   \<and> imageX (Fin 100) (Fin 200) (Fin (245 / 2)) (specRect 10 20) = Fin (75 / 2)
   \<and> touchDrop (Fin 100) (Fin 200) (Fin (245 / 2)) (Fin 95) (specRect 10 20) =
       Some ((Fin (225 / 2), Fin 75), (Fin 25, Fin 25))"
  using touch_mapping_contain [of "Fin 100" "Fin 200" "Fin (245 / 2)" "Fin 95" "specRect 10 20"]
  by (simp add: mapper_defs renderedSize_def specRect_def)

text \<open>
  Claim C3. A release whose image-relative point fails the bounds test of the source
  (a coordinate below 0, or above the rendered width or height) is dropped without a
  trace: no call of the generation service, the error and the loading flag as before, the
  history and the cursor as before. For finite numbers the test fails exactly off the
  closed box from 0 to the rendered width and from 0 to the rendered height.
\<close>

theorem out_of_bounds_release_ignored:
  "(outOfBounds nw nh cx cy rect \<longrightarrow>
      generateCalls (handleTouchEnd atob outcome now cx cy (Some rect) (Some (nw, nh)) s) =
        generateCalls s
    \<and> error (handleTouchEnd atob outcome now cx cy (Some rect) (Some (nw, nh)) s) = error s
    \<and> isLoading (handleTouchEnd atob outcome now cx cy (Some rect) (Some (nw, nh)) s) =
        isLoading s
    \<and> history (handleTouchEnd atob outcome now cx cy (Some rect) (Some (nw, nh)) s) = history s
    \<and> historyIndex (handleTouchEnd atob outcome now cx cy (Some rect) (Some (nw, nh)) s) =
        historyIndex s)
   \<and> (imageX nw nh cx rect = Fin a \<and> imageY nw nh cy rect = Fin b \<and>
      renderedWidth nw nh rect = Fin w \<and> renderedHeight nw nh rect = Fin h \<longrightarrow>
      outOfBounds nw nh cx cy rect = (\<not> (0 \<le> a \<and> a \<le> w \<and> 0 \<le> b \<and> b \<le> h)))"
proof -
  have "imageX nw nh cx rect = Fin a \<and> imageY nw nh cy rect = Fin b \<and>
      renderedWidth nw nh rect = Fin w \<and> renderedHeight nw nh rect = Fin h \<longrightarrow>
      outOfBounds nw nh cx cy rect = (\<not> (0 \<le> a \<and> a \<le> w \<and> 0 \<le> b \<and> b \<le> h))"
    by (auto simp add: outOfBounds_def num_gt_def)
  then show ?thesis
    by (simp add: outOfBounds_rejected)
qed

theorem out_of_bounds_release_ignored_witness:
  "outOfBounds (Fin 200) (Fin 100) (Fin 150) (Fin 10) (specRect 0 0)
   \<and> imageX (Fin 200) (Fin 100) (Fin 150) (specRect 0 0) = Fin 150
   \<and> imageY (Fin 200) (Fin 100) (Fin 10) (specRect 0 0) = Fin (- 65)
   \<and> renderedWidth (Fin 200) (Fin 100) (specRect 0 0) = Fin 300
   \<and> renderedHeight (Fin 200) (Fin 100) (specRect 0 0) = Fin 150
   \<and> generateCalls (handleTouchEnd sampleAtob (Resolved sampleComposite) 5 (Fin 150) (Fin 10)
        (Some (specRect 0 0)) (Some (Fin 200, Fin 100)) (sampleApp\<lparr>isTouchDragging := True\<rparr>)) = []
   \<and> history (handleTouchEnd sampleAtob (Resolved sampleComposite) 5 (Fin 150) (Fin 10)
        (Some (specRect 0 0)) (Some (Fin 200, Fin 100)) (sampleApp\<lparr>isTouchDragging := True\<rparr>)) =
       history sampleApp"
  using out_of_bounds_release_ignored [of "Fin 200" "Fin 100" "Fin 150" "Fin 10" "specRect 0 0"
      sampleAtob "Resolved sampleComposite" 5 "sampleApp\<lparr>isTouchDragging := True\<rparr>"
      150 "- 65" 300 150]
  by (simp add: mapper_defs renderedSize_def specRect_def sampleApp_def initialApp_def)

text \<open>
  Claim C4, as stated, fails: the source has no test for a container of width or height
  zero. With an image of 200 by 100 and a container of width 0 and height 300, a release
  at the container point (0, 150) passes the bounds test, both percentages are NaN, and
  \<open>handleTouchEnd\<close> calls the generation service with them.
\<close>

theorem zero_width_container_forwards_nan:
  "rectWidth zeroWidthRect = Fin 0
   \<and> touchDrop (Fin 200) (Fin 100) (Fin 0) (Fin 150) zeroWidthRect =
       Some ((Fin 0, Fin 150), (NaN, NaN))
   \<and> generateCalls (handleTouchEnd sampleAtob (Rejected None) 5 (Fin 0) (Fin 150)
        (Some zeroWidthRect) (Some (Fin 200, Fin 100)) (sampleApp\<lparr>isTouchDragging := True\<rparr>)) =
       [(sampleFile ''object.jpeg'', ''object.jpeg'', sampleFile ''C'', ''C'', (NaN, NaN), 0)]"
  by (simp add: mapper_defs renderedSize_def zeroWidthRect_def handleTouchEnd_def
      handleProductDrop_def sceneImage_def currentHistoryEntry_def dropFinally_def dropFailed_def
      sampleApp_def initialApp_def sampleEntry_def sampleFile_def)

text \<open>
  Claim C4, amended. For a container of width zero or height zero, an image of positive
  natural size and finite coordinates, the rendered size is 0 by 0 and the only test is
  the bounds test: every release is rejected except the one at the centre of the
  container, and that one is passed to the drop handler with NaN for both percentages.
\<close>

theorem zero_size_container_mapping:
  assumes "0 < nw" "0 < nh" "0 \<le> cw" "0 \<le> ch" "cw = 0 \<or> ch = 0"
  shows "touchDrop (Fin nw) (Fin nh) (Fin cx) (Fin cy)
           \<lparr>rectLeft = Fin l, rectTop = Fin t, rectWidth = Fin cw, rectHeight = Fin ch\<rparr> =
         (if cx - l = cw / 2 \<and> cy - t = ch / 2
          then Some ((Fin (cx - l), Fin (cy - t)), (NaN, NaN))
          else None)"
  using renderedSize_zero [OF assms]
  by (auto simp add: mapper_defs)

theorem zero_size_container_mapping_witness:
  "(0::rat) < 200 \<and> (0::rat) < 100 \<and> (0::rat) \<le> 0 \<and> (0::rat) \<le> 300
   \<and> touchDrop (Fin 200) (Fin 100) (Fin 0) (Fin 150)
           \<lparr>rectLeft = Fin 0, rectTop = Fin 0, rectWidth = Fin 0, rectHeight = Fin 300\<rparr> =
       Some ((Fin 0, Fin 150), (NaN, NaN))"
  using zero_size_container_mapping [of 200 100 0 300 0 150 0 0]
  by simp


section \<open>A failed generation\<close>

text \<open>
  Claim C5. When the generation call fails, the entries and the cursor are what they were
  before the call, the loading flag and the loading marker are cleared and the failure is
  reported. No partial entry is ever created: whenever \<open>handleProductDrop\<close> changes the
  entries or the cursor, the call has resolved and its image has been decoded into a file,
  and the history is the old one up to the cursor followed by the complete new entry.
\<close>

theorem failed_generation_keeps_history:
  "history (handleProductDrop atob (Rejected err) now pos rel s) = history s
   \<and> historyIndex (handleProductDrop atob (Rejected err) now pos rel s) = historyIndex s
   \<and> (productImageFile s = Some pf \<and> sceneImage s = Some sc \<and> selectedProduct s = Some sp \<longrightarrow>
        generateCalls (handleProductDrop atob (Rejected err) now pos rel s) =
          generateCalls s @ [(pf, productName sp, sc, fileName sc, rel, productRotationState s)]
      \<and> \<not> isLoading (handleProductDrop atob (Rejected err) now pos rel s)
      \<and> loadingOrbPosition (handleProductDrop atob (Rejected err) now pos rel s) = None
      \<and> error (handleProductDrop atob (Rejected err) now pos rel s) =
          Some (''Failed to generate the image. '' @ errorMessage err))
   \<and> (history (handleProductDrop atob outcome now pos rel s) \<noteq> history s
      \<or> historyIndex (handleProductDrop atob outcome now pos rel s) \<noteq> historyIndex s \<longrightarrow>
        (\<exists>r f. outcome = Resolved r
           \<and> dataURLtoFile atob (finalImageUrl r) (''generated-scene-'' @ decimal now @ ''.jpeg'') = Inr f
           \<and> history (handleProductDrop atob outcome now pos rel s) =
               take (Suc (nat (historyIndex s))) (history s) @
                 [\<lparr>sceneFile = f, persistedOrbPosition = Some pos,
                   debugImageUrl = compositeDebugImageUrl r, debugPrompt = finalPrompt r,
                   productRotation = productRotationState s\<rparr>]
           \<and> historyIndex (handleProductDrop atob outcome now pos rel s) = historyIndex s + 1))"
proof -
  have unchanged: "history (handleProductDrop atob (Rejected err) now pos rel s) = history s
      \<and> historyIndex (handleProductDrop atob (Rejected err) now pos rel s) = historyIndex s"
    using handleProductDrop_cases [of atob "Rejected err" now pos rel s] by auto
  have cleared: "productImageFile s = Some pf \<and> sceneImage s = Some sc \<and> selectedProduct s = Some sp \<longrightarrow>
        generateCalls (handleProductDrop atob (Rejected err) now pos rel s) =
          generateCalls s @ [(pf, productName sp, sc, fileName sc, rel, productRotationState s)]
      \<and> \<not> isLoading (handleProductDrop atob (Rejected err) now pos rel s)
      \<and> loadingOrbPosition (handleProductDrop atob (Rejected err) now pos rel s) = None
      \<and> error (handleProductDrop atob (Rejected err) now pos rel s) =
          Some (''Failed to generate the image. '' @ errorMessage err)"
    by (simp add: handleProductDrop_def Let_def dropFinally_def dropFailed_def)
  show ?thesis
    using unchanged cleared handleProductDrop_cases [of atob outcome now pos rel s]
    by blast
qed

theorem failed_generation_keeps_history_witness:
  "productImageFile sampleApp = Some (sampleFile ''object.jpeg'')
   \<and> sceneImage sampleApp = Some (sampleFile ''C'')
   \<and> history (handleProductDrop sampleAtob (Rejected (Some ''quota'')) 5 (Fin 3, Fin 3)
        (Fin 50, Fin 50) sampleApp) = history sampleApp
   \<and> error (handleProductDrop sampleAtob (Rejected (Some ''quota'')) 5 (Fin 3, Fin 3)
        (Fin 50, Fin 50) sampleApp) = Some ''Failed to generate the image. quota''
   \<and> historyIndex (handleProductDrop sampleAtob (Resolved sampleComposite) 5 (Fin 3, Fin 3)
        (Fin 50, Fin 50) sampleApp) \<noteq> historyIndex sampleApp
   \<and> length (history (handleProductDrop sampleAtob (Resolved sampleComposite) 5 (Fin 3, Fin 3)
        (Fin 50, Fin 50) sampleApp)) = 4"
  using failed_generation_keeps_history [of sampleAtob "Some ''quota''" 5 "(Fin 3, Fin 3)"
      "(Fin 50, Fin 50)" sampleApp "sampleFile ''object.jpeg''" "sampleFile ''C''"
      "\<lparr>productId = 7, productName = ''object.jpeg'', imageUrl = ''blob:1''\<rparr>"
      "Resolved sampleComposite"]
    sample_decode [of "''generated-scene-'' @ decimal 5 @ ''.jpeg''"] sample_scene
  by (simp add: sampleApp_def initialApp_def errorMessage_def handleProductDrop_def Let_def
      dropFinally_def appendEntry_def slice0_def)

section \<open>The cursor\<close>

text \<open>
  Claim C6. After every sequence of events, from the initial state with the empty history,
  the cursor is \<open>-1\<close> if the history is empty and an index of the history otherwise, and
  the current entry is the entry under the cursor, or absent on the empty history. The
  events are all handlers of the application: uploads, drops (appends), undo, redo, reset
  and change of scene among them.
\<close>

theorem cursor_in_range_on_every_run:
  "cursorInRange (run atob events) \<and>
   currentHistoryEntry (run atob events) =
     (if history (run atob events) = [] then None
      else Some (history (run atob events) ! nat (historyIndex (run atob events))))"
proof -
  have "cursorInRange (run atob events)"
    unfolding run_def by (rule foldl_step_cursor) (simp add: cursorInRange_def initialApp_def)
  then show ?thesis
    by (auto simp add: cursorInRange_def currentHistoryEntry_def split: if_splits)
qed

theorem cursor_in_range_on_every_run_witness:
  "history (run sampleAtob sampleEvents) \<noteq> []
   \<and> historyIndex (run sampleAtob sampleEvents) = 0
   \<and> cursorInRange (run sampleAtob sampleEvents)
   \<and> currentHistoryEntry (run sampleAtob sampleEvents) =
       Some \<lparr>sceneFile = sampleFile ''scene.jpeg'', persistedOrbPosition = None,
             debugImageUrl = None, debugPrompt = None, productRotation = 0\<rparr>"
  using cursor_in_range_on_every_run [of sampleAtob sampleEvents] sample_run
  by simp

text \<open>
  Claim C7. Undo moves the cursor one down when it is above 0 and changes nothing
  otherwise, in particular at 0; redo moves it one up when it is below the last index and
  changes nothing otherwise, in particular at the last index; neither touches the entries.
  \<open>canUndo\<close> is \<open>cursor > 0\<close> and \<open>canRedo\<close> is \<open>cursor < length - 1\<close>, so each
  says exactly whether its handler changes the state.
\<close>

theorem undo_redo_move_cursor:
  "historyIndex (handleUndo s) = (if 0 < historyIndex s then historyIndex s - 1 else historyIndex s)
   \<and> history (handleUndo s) = history s
   \<and> (handleUndo s = s) = (\<not> 0 < historyIndex s)
   \<and> historyIndex (handleRedo s) =
       (if historyIndex s < int (length (history s)) - 1 then historyIndex s + 1 else historyIndex s)
   \<and> history (handleRedo s) = history s
   \<and> (handleRedo s = s) = (\<not> historyIndex s < int (length (history s)) - 1)
   \<and> canUndo s = (0 < historyIndex s)
   \<and> canRedo s = (historyIndex s < int (length (history s)) - 1)"
proof -
  have moved: "\<And>k. s\<lparr>historyIndex := k\<rparr> = s \<Longrightarrow> k = historyIndex s"
    by (drule arg_cong [where f = historyIndex]) simp
  show ?thesis
    by (auto simp add: handleUndo_def handleRedo_def canUndo_def canRedo_def dest: moved)
qed

theorem undo_redo_move_cursor_witness:
  "historyIndex (handleUndo sampleApp) = 1
   \<and> handleRedo sampleApp = sampleApp
   \<and> canUndo sampleApp \<and> \<not> canRedo sampleApp"
  using undo_redo_move_cursor [of sampleApp]
  by (simp add: sampleApp_def initialApp_def)

text \<open>
  Claim C8. After every sequence of events the first entry of a non-empty history has no
  marker position, no debug image and no debug prompt: a scene upload creates it so, and
  every drop (the append), undo and redo keeps it so.
\<close>

theorem first_entry_raw_on_every_run:
  "firstEntryRaw (run atob events)
   \<and> firstEntryRaw (handleSceneUpload file s)
   \<and> (firstEntryRaw s \<longrightarrow>
        firstEntryRaw (handleProductDrop atob outcome now pos rel s)
      \<and> firstEntryRaw (handleUndo s)
      \<and> firstEntryRaw (handleRedo s))"
proof -
  have reach: "firstEntryRaw (run atob events)"
    unfolding run_def by (rule foldl_step_first) (simp add: firstEntryRaw_def initialApp_def)
  have upload: "firstEntryRaw (handleSceneUpload file s)"
    by (simp add: firstEntryRaw_def handleSceneUpload_def)
  have moves: "firstEntryRaw s \<longrightarrow> firstEntryRaw (handleUndo s) \<and> firstEntryRaw (handleRedo s)"
    by (simp add: firstEntryRaw_def handleUndo_def handleRedo_def)
  from reach upload moves show ?thesis
    by (simp add: handleProductDrop_first)
qed

theorem first_entry_raw_on_every_run_witness:
  "length (history (run sampleAtob sampleEvents)) = 2
   \<and> firstEntryRaw (run sampleAtob sampleEvents)
   \<and> persistedOrbPosition (hd (history (run sampleAtob sampleEvents))) = None
   \<and> firstEntryRaw sampleApp
   \<and> firstEntryRaw (handleProductDrop sampleAtob (Resolved sampleComposite) 5 (Fin 3, Fin 3)
        (Fin 50, Fin 50) sampleApp)
   \<and> firstEntryRaw (handleUndo sampleApp)"
  using first_entry_raw_on_every_run [where atob = sampleAtob and events = sampleEvents
      and s = sampleApp and outcome = "Resolved sampleComposite" and now = 5
      and pos = "(Fin 3, Fin 3)" and rel = "(Fin 50, Fin 50)"] sample_run
  by (simp add: firstEntryRaw_def sampleApp_def initialApp_def sampleEntry_def)

section \<open>Undo followed by redo\<close>

text \<open>
  Claim C10. On a history log with the cursor above 0, an undo leaves the cursor strictly
  below the last index, so the redo that follows takes effect: together they give back
  the state they started from, with its cursor and its current entry.
\<close>

theorem undo_then_redo_restores:
  assumes "cursorInRange s" "0 < historyIndex s"
  shows "historyIndex (handleUndo s) < int (length (history s)) - 1
       \<and> handleRedo (handleUndo s) = s
       \<and> historyIndex (handleRedo (handleUndo s)) = historyIndex s
       \<and> currentHistoryEntry (handleRedo (handleUndo s)) = currentHistoryEntry s"
proof -
  have "historyIndex s < int (length (history s))"
    using assms by (auto simp add: cursorInRange_def split: if_splits)
  then have "handleRedo (handleUndo s) = s"
      "historyIndex (handleUndo s) < int (length (history s)) - 1"
    using assms(2) by (simp_all add: handleUndo_def handleRedo_def)
  then show ?thesis by simp
qed

theorem undo_then_redo_restores_witness:
  "cursorInRange sampleApp \<and> 0 < historyIndex sampleApp
   \<and> historyIndex (handleUndo sampleApp) = 1
   \<and> historyIndex (handleRedo (handleUndo sampleApp)) = 2"
  using undo_then_redo_restores [of sampleApp]
  by (simp add: sampleApp_def initialApp_def cursorInRange_def handleUndo_def)

end
